theory Spec2Isabelle
  imports Complex_Main "HOL-Library.Sublist" "HOL-Library.Word"
begin

section \<open>Python values\<close>

text \<open>
  A Python \<open>str\<close> is a sequence of Unicode code points, so it is a list of naturals here:
  an emoji such as U+1F600 is the one-element list \<open>[128512]\<close>. ASCII literals of the
  source are written with \<open>asc\<close>. \<open>bytes\<close> are lists of 8-bit words.
\<close>

type_synonym pystr = "nat list"
type_synonym bytes = "8 word list"

definition asc :: "string \<Rightarrow> pystr" where
  "asc s = map of_char s"

text \<open>Truthiness of the optional values the source tests with \<open>if x\<close> and \<open>x or y\<close>.\<close>

fun truthy_str :: "pystr option \<Rightarrow> bool" where
  "truthy_str None = False"
| "truthy_str (Some s) = (s \<noteq> [])"

fun truthy_bytes :: "bytes option \<Rightarrow> bool" where
  "truthy_bytes None = False"
| "truthy_bytes (Some b) = (b \<noteq> [])"

fun truthy_int :: "int option \<Rightarrow> bool" where
  "truthy_int None = False"
| "truthy_int (Some i) = (i \<noteq> 0)"

text \<open>
  Durations are Python floats. Every finite float is a rational, and the only operations
  the source applies to them are a subtraction, a scaling by 1000, the truth test and
  the \<open>.0f\<close> formatting, which is taken from the runtime.
\<close>

fun truthy_float :: "rat option \<Rightarrow> bool" where
  "truthy_float None = False"
| "truthy_float (Some d) = (d \<noteq> 0)"

text \<open>Exceptions carry their class and the text that \<open>str(e)\<close> gives.\<close>

datatype exn_class =
  InvalidInput | FileExistsError | NotADirectoryError | IsADirectoryError
  | FileNotFoundError | ClientFault

datatype exn = Exn exn_class pystr

fun str_exn :: "exn \<Rightarrow> pystr" where
  "str_exn (Exn c m) = m"

text \<open>Decimal rendering of integers, as \<open>str(n)\<close> and \<open>{n}\<close> in an f-string give it.\<close>

function str_nat :: "nat \<Rightarrow> pystr" where
  "str_nat n = (if n < 10 then [48 + n] else str_nat (n div 10) @ [48 + n mod 10])"
  by pat_completeness auto
termination
  by (relation "measure id") auto

declare str_nat.simps [simp del]

definition str_int :: "int \<Rightarrow> pystr" where
  "str_int i = (if i < 0 then 45 # str_nat (nat (- i)) else str_nat (nat i))"

text \<open>
  The format \<open>.0f\<close> of a float: the nearest integer, a tie going to the even one, with the
  sign of the argument kept (Python prints \<open>-0\<close> for \<open>-0.4\<close>).
\<close>

definition round_half_even :: "rat \<Rightarrow> int" where
  "round_half_even d =
     (let f = \<lfloor>d\<rfloor>; r = d - of_int f
      in if r < 1 / 2 then f else if 1 / 2 < r then f + 1 else if even f then f else f + 1)"

definition format_0f :: "rat \<Rightarrow> pystr" where
  "format_0f d =
     (if d < 0 then 45 # str_nat (nat (round_half_even (- d)))
      else str_nat (nat (round_half_even d)))"

section \<open>Path resolution\<close>

text \<open>
  \<open>storage/paths.py\<close> and \<open>utils/emoji_utils.py\<close> are imported by the storage manager
  but their text is not part of the sources at hand. The definitions of this section follow
  the specification's description of the Path Resolver and of the CodepointKey.
\<close>

datatype FilenameFormat = Emoji | Codepoint | Auto

text \<open>
  What the resolver takes from the running system: whether the filesystem encoding can
  hold raw glyphs (the test behind format \<open>auto\<close>), the size the resolver writes into the
  file name when the caller passes none (\<open>StorageManager.get_file_path\<close> passes none), and
  the size \<open>stat\<close> reports for a directory, and the float formatting of the logger.
\<close>

record runtime =
  glyph_safe :: bool
  default_size :: nat
  dir_size :: nat
  fmt_0f :: "rat \<Rightarrow> pystr"

definition hex_digit :: "nat \<Rightarrow> nat" where
  "hex_digit d = (if d < 10 then 48 + d else 87 + d)"

function to_hex :: "nat \<Rightarrow> pystr" where
  "to_hex n = (if n < 16 then [hex_digit n] else to_hex (n div 16) @ [hex_digit (n mod 16)])"
  by pat_completeness auto
termination
  by (relation "measure id") auto

declare to_hex.simps [simp del]

fun join_hyphen :: "pystr list \<Rightarrow> pystr" where
  "join_hyphen [] = []"
| "join_hyphen [x] = x"
| "join_hyphen (x # y # ys) = x @ 45 # join_hyphen (y # ys)"

definition emoji_to_codepoint :: "pystr \<Rightarrow> pystr" where
  \<comment> \<open>Modelled from the spec: \<open>emoji_utils.emoji_to_codepoint\<close> is missing. "The Unicode
      scalar sequence(s) of each emoji rendered as lowercase hyphen-joined hex (e.g. 1f600)".\<close>
  "emoji_to_codepoint e = join_hyphen (map to_hex e)"

definition resolve_format :: "runtime \<Rightarrow> FilenameFormat \<Rightarrow> FilenameFormat" where
  \<comment> \<open>Modelled from the spec: the format decision of \<open>paths.py\<close> is missing. "auto
      (codepoint if the filesystem/encoding is unsafe for glyphs, else emoji)".\<close>
  "resolve_format rt fmt =
     (case fmt of Auto \<Rightarrow> (if glyph_safe rt then Emoji else Codepoint) | f \<Rightarrow> f)"

definition generate_directory_name :: "runtime \<Rightarrow> pystr \<Rightarrow> FilenameFormat \<Rightarrow> exn + pystr" where
  \<comment> \<open>Modelled from the spec: \<open>paths.generate_directory_name\<close> is missing. "A base
      directory named after the first emoji (by codepoint or glyph per format)"; an empty
      emoji string "fails with an InvalidInput error".\<close>
  "generate_directory_name rt emoji fmt =
     (if emoji = [] then Inl (Exn InvalidInput (asc ''empty emoji''))
      else if resolve_format rt fmt = Codepoint then Inr (emoji_to_codepoint emoji)
      else Inr emoji)"

type_synonym path = "pystr list"

definition generate_full_path ::
  "runtime \<Rightarrow> path \<Rightarrow> pystr \<Rightarrow> pystr \<Rightarrow> FilenameFormat \<Rightarrow> exn + path" where
  \<comment> \<open>Modelled from the spec: \<open>paths.generate_full_path\<close> is missing. The layout is
      "<output_root>/<base_emoji_dir>/<emoji1>_<emoji2>_<size>.png". A path is the list of its
      components, as \<open>pathlib.Path\<close> compares them.\<close>
  "generate_full_path rt base_dir emoji1 emoji2 fmt =
     (case generate_directory_name rt emoji1 fmt of
        Inl e \<Rightarrow> Inl e
      | Inr n1 \<Rightarrow>
          (case generate_directory_name rt emoji2 fmt of
             Inl e \<Rightarrow> Inl e
           | Inr n2 \<Rightarrow>
               Inr (base_dir @
                    [n1, n1 @ 95 # n2 @ 95 # str_nat (default_size rt) @ asc ''.png''])))"

fun join_slash :: "pystr list \<Rightarrow> pystr" where
  "join_slash [] = []"
| "join_slash [x] = x"
| "join_slash (x # y # ys) = x @ 47 # join_slash (y # ys)"

definition str_path :: "path \<Rightarrow> pystr" where
  "str_path p = join_slash p"

text \<open>
  What \<open>str(e)\<close> gives for an \<open>OSError\<close> raised on a path:
  \<open>[Errno 21] Is a directory: 'out/x.png'\<close>.
\<close>

definition oserror_text :: "nat \<Rightarrow> string \<Rightarrow> path \<Rightarrow> pystr" where
  "oserror_text errno msg p =
     asc ''[Errno '' @ str_nat errno @ asc ''] '' @ asc msg @ asc '': '' @ 39 # str_path p @ [39]"

section \<open>The filesystem\<close>

text \<open>
  The disk is a finite tree of regular files and directories, given as a map from paths to
  nodes; the root \<open>[]\<close> is always a directory. Permissions, quotas and symbolic links are
  outside the model, so the \<open>pathlib\<close> calls of the source fail exactly where the shape of
  the tree makes them fail.
\<close>

datatype node = File bytes | Dir

type_synonym fs = "path \<rightharpoonup> node"

definition lookup :: "fs \<Rightarrow> path \<Rightarrow> node option" where
  "lookup d p = (if p = [] then Some Dir else d p)"

definition path_exists :: "fs \<Rightarrow> path \<Rightarrow> bool" where
  "path_exists d p = (lookup d p \<noteq> None)"

definition is_file :: "fs \<Rightarrow> path \<Rightarrow> bool" where
  "is_file d p = (case lookup d p of Some (File b) \<Rightarrow> True | _ \<Rightarrow> False)"

definition st_size :: "runtime \<Rightarrow> fs \<Rightarrow> path \<Rightarrow> exn + nat" where
  \<comment> \<open>\<open>path.stat().st_size\<close>\<close>
  "st_size rt d p =
     (case lookup d p of
        None \<Rightarrow> Inl (Exn FileNotFoundError (oserror_text 2 ''No such file or directory'' p))
      | Some Dir \<Rightarrow> Inr (dir_size rt)
      | Some (File b) \<Rightarrow> Inr (length b))"

definition mkdir_parents :: "fs \<Rightarrow> path \<Rightarrow> (exn + unit) \<times> fs" where
  \<comment> \<open>\<open>path.mkdir(parents=True, exist_ok=True)\<close>: every missing ancestor and the path itself
      become directories; a regular file on the way makes the first \<open>os.mkdir\<close> of the path
      fail, with nothing made, and the exception names the path.\<close>
  "mkdir_parents d p =
     (case find (is_file d) (prefixes p) of
        Some q \<Rightarrow>
          (Inl (if q = p then Exn FileExistsError (oserror_text 17 ''File exists'' p)
                else Exn NotADirectoryError (oserror_text 20 ''Not a directory'' p)), d)
      | None \<Rightarrow> (Inr (), (\<lambda>q. if q \<noteq> [] \<and> prefix q p then Some Dir else d q)))"

definition write_bytes :: "fs \<Rightarrow> path \<Rightarrow> bytes \<Rightarrow> (exn + unit) \<times> fs" where
  \<comment> \<open>\<open>path.write_bytes(content)\<close>: opens for writing, truncating what was there.\<close>
  "write_bytes d p content =
     (if lookup d p = Some Dir
      then (Inl (Exn IsADirectoryError (oserror_text 21 ''Is a directory'' p)), d)
      else if lookup d (butlast p) \<noteq> Some Dir
      then (Inl (Exn FileNotFoundError (oserror_text 2 ''No such file or directory'' p)), d)
      else (Inr (), d(p \<mapsto> File content)))"

definition unlink :: "fs \<Rightarrow> path \<Rightarrow> (exn + unit) \<times> fs" where
  \<comment> \<open>\<open>path.unlink()\<close>: removes a regular file, and fails on a directory or on nothing.\<close>
  "unlink d p =
     (case lookup d p of
        None \<Rightarrow> (Inl (Exn FileNotFoundError (oserror_text 2 ''No such file or directory'' p)), d)
      | Some Dir \<Rightarrow> (Inl (Exn IsADirectoryError (oserror_text 21 ''Is a directory'' p)), d)
      | Some (File b) \<Rightarrow> (Inr (), d(p := None)))"

section \<open>StorageManager\<close>

record StorageManager =
  base_dir :: path
  filename_format :: FilenameFormat

definition get_file_path :: "runtime \<Rightarrow> StorageManager \<Rightarrow> pystr \<Rightarrow> pystr \<Rightarrow> exn + path" where
  "get_file_path rt sm emoji1 emoji2 =
     generate_full_path rt (base_dir sm) emoji1 emoji2 (filename_format sm)"

definition file_exists :: "runtime \<Rightarrow> StorageManager \<Rightarrow> fs \<Rightarrow> pystr \<Rightarrow> pystr \<Rightarrow> exn + bool" where
  "file_exists rt sm d emoji1 emoji2 =
     (case get_file_path rt sm emoji1 emoji2 of
        Inl e \<Rightarrow> Inl e
      | Inr p \<Rightarrow> Inr (path_exists d p \<and> is_file d p))"

definition save ::
  "runtime \<Rightarrow> StorageManager \<Rightarrow> fs \<Rightarrow> pystr \<Rightarrow> pystr \<Rightarrow> bytes \<Rightarrow> (exn + path) \<times> fs" where
  "save rt sm d emoji1 emoji2 content =
     (case get_file_path rt sm emoji1 emoji2 of
        Inl e \<Rightarrow> (Inl e, d)
      | Inr fp \<Rightarrow>
          (case mkdir_parents d (butlast fp) of
             (Inl e, d1) \<Rightarrow> (Inl e, d1)
           | (Inr u, d1) \<Rightarrow>
               (case write_bytes d1 fp content of
                  (Inl e, d2) \<Rightarrow> (Inl e, d2)
                | (Inr v, d2) \<Rightarrow> (Inr fp, d2))))"

definition get_file_size ::
  "runtime \<Rightarrow> StorageManager \<Rightarrow> fs \<Rightarrow> pystr \<Rightarrow> pystr \<Rightarrow> exn + nat option" where
  "get_file_size rt sm d emoji1 emoji2 =
     (case get_file_path rt sm emoji1 emoji2 of
        Inl e \<Rightarrow> Inl e
      | Inr p \<Rightarrow>
          (if path_exists d p
           then (case st_size rt d p of Inl e \<Rightarrow> Inl e | Inr n \<Rightarrow> Inr (Some n))
           else Inr None))"

definition delete ::
  "runtime \<Rightarrow> StorageManager \<Rightarrow> fs \<Rightarrow> pystr \<Rightarrow> pystr \<Rightarrow> (exn + bool) \<times> fs" where
  "delete rt sm d emoji1 emoji2 =
     (case get_file_path rt sm emoji1 emoji2 of
        Inl e \<Rightarrow> (Inl e, d)
      | Inr p \<Rightarrow>
          (if path_exists d p
           then (case unlink d p of
                   (Inl e, d1) \<Rightarrow> (Inl e, d1)
                 | (Inr u, d1) \<Rightarrow> (Inr True, d1))
           else (Inr False, d)))"

section \<open>JSONLogger\<close>

record DownloadResult =
  emoji1 :: pystr
  emoji2 :: pystr
  timestamp :: pystr
  success :: bool
  file_path :: "pystr option"
  error_type :: "pystr option"
  error_message :: "pystr option"
  status_code :: "int option"
  duration_ms :: "rat option"
  url :: "pystr option"

datatype level = DEBUG | INFO | WARNING | ERROR

text \<open>
  A session's JSON file either parses to the list of records written so far, or reading or
  writing it raises; \<open>_append_to_json_file\<close> catches that exception itself.
\<close>

datatype jsonfile = Json "DownloadResult list" | Unreadable exn

datatype logfile = SuccessFile | FailureFile

text \<open>
  \<open>logged_successes\<close> and \<open>logged_failures\<close> are the in-memory lists \<open>self.successes\<close> and
  \<open>self.failures\<close>; \<open>success_json\<close> and \<open>failure_json\<close> are the contents of the two files
  named by \<open>success_file\<close> and \<open>failure_file\<close>; \<open>records\<close> is the sequence of calls made to the
  Python logger, each with its level and message.
\<close>

record JSONLogger =
  success_file :: pystr
  failure_file :: pystr
  success_json :: jsonfile
  failure_json :: jsonfile
  logged_successes :: "DownloadResult list"
  logged_failures :: "DownloadResult list"
  records :: "(level \<times> pystr) list"

definition emit :: "level \<Rightarrow> pystr \<Rightarrow> JSONLogger \<Rightarrow> JSONLogger" where
  "emit lv msg lg = lg\<lparr>records := records lg @ [(lv, msg)]\<rparr>"

definition debug :: "pystr \<Rightarrow> JSONLogger \<Rightarrow> JSONLogger" where
  "debug msg lg = emit DEBUG msg lg"

definition info :: "pystr \<Rightarrow> JSONLogger \<Rightarrow> JSONLogger" where
  "info msg lg = emit INFO msg lg"

definition warning :: "pystr \<Rightarrow> JSONLogger \<Rightarrow> JSONLogger" where
  "warning msg lg = emit WARNING msg lg"

definition error :: "pystr \<Rightarrow> JSONLogger \<Rightarrow> JSONLogger" where
  "error msg lg = emit ERROR msg lg"

definition append_to_json_file :: "logfile \<Rightarrow> DownloadResult \<Rightarrow> JSONLogger \<Rightarrow> JSONLogger" where
  "append_to_json_file f result lg =
     (case f of
        SuccessFile \<Rightarrow>
          (case success_json lg of
             Json data \<Rightarrow> lg\<lparr>success_json := Json (data @ [result])\<rparr>
           | Unreadable e \<Rightarrow>
               error (asc ''Failed to write to '' @ success_file lg @ asc '': '' @ str_exn e) lg)
      | FailureFile \<Rightarrow>
          (case failure_json lg of
             Json data \<Rightarrow> lg\<lparr>failure_json := Json (data @ [result])\<rparr>
           | Unreadable e \<Rightarrow>
               error (asc ''Failed to write to '' @ failure_file lg @ asc '': '' @ str_exn e) lg))"

text \<open>
  The two log lines. In the source the conditional expression takes the whole concatenated
  f-string as its first branch, so the message is either the full line or the empty string.
\<close>

definition success_line :: "runtime \<Rightarrow> pystr \<Rightarrow> pystr \<Rightarrow> pystr \<Rightarrow> rat \<Rightarrow> pystr" where
  "success_line rt e1 e2 fp d =
     asc ''SUCCESS: '' @ e1 @ asc '' + '' @ e2 @ [32, 8217, 32] @ fp @ asc '' ''
     @ asc ''('' @ fmt_0f rt d @ asc ''ms)''"

definition failure_line :: "pystr \<Rightarrow> pystr \<Rightarrow> pystr \<Rightarrow> pystr \<Rightarrow> int \<Rightarrow> pystr" where
  "failure_line e1 e2 etype emsg sc =
     asc ''FAILURE: '' @ e1 @ asc '' + '' @ e2 @ asc '' - '' @ etype @ asc '': '' @ emsg @ asc '' ''
     @ asc ''[HTTP '' @ str_int sc @ asc '']''"

definition log_success ::
  "runtime \<Rightarrow> pystr \<Rightarrow> pystr \<Rightarrow> pystr \<Rightarrow> pystr \<Rightarrow> rat option \<Rightarrow> pystr option \<Rightarrow> int option
     \<Rightarrow> JSONLogger \<Rightarrow> JSONLogger" where
  "log_success rt now e1 e2 fp dur u sc lg =
     (let result = \<lparr>emoji1 = e1, emoji2 = e2, timestamp = now, success = True,
                     file_path = Some fp, error_type = None, error_message = None,
                     status_code = sc, duration_ms = dur, url = u\<rparr>;
          lg1 = lg\<lparr>logged_successes := logged_successes lg @ [result]\<rparr>;
          lg2 = append_to_json_file SuccessFile result lg1
      in info (if truthy_float dur then success_line rt e1 e2 fp (the dur) else []) lg2)"

definition log_failure ::
  "pystr \<Rightarrow> pystr \<Rightarrow> pystr \<Rightarrow> pystr \<Rightarrow> pystr \<Rightarrow> int option \<Rightarrow> rat option \<Rightarrow> pystr option
     \<Rightarrow> JSONLogger \<Rightarrow> JSONLogger" where
  "log_failure now e1 e2 etype emsg sc dur u lg =
     (let result = \<lparr>emoji1 = e1, emoji2 = e2, timestamp = now, success = False,
                     file_path = None, error_type = Some etype, error_message = Some emsg,
                     status_code = sc, duration_ms = dur, url = u\<rparr>;
          lg1 = lg\<lparr>logged_failures := logged_failures lg @ [result]\<rparr>;
          lg2 = append_to_json_file FailureFile result lg1
      in warning (if truthy_int sc then failure_line e1 e2 etype emsg (the sc) else []) lg2)"

section \<open>DownloadOrchestrator\<close>

record DownloadStats =
  total_n :: nat
  successes :: nat
  failures :: nat
  skipped :: nat
  duration_seconds :: rat

text \<open>
  \<open>api/client.py\<close> is not among the sources: \<open>build_url\<close> and \<open>download_image\<close> of the
  client are taken from the environment, each either raising or returning. The environment
  also gives the two readings of \<open>time.time()\<close> and the text of \<open>datetime.now().isoformat()\<close>.
\<close>

type_synonym fetched = "bool \<times> bytes option \<times> pystr option \<times> int option"

record environment =
  build_url :: "pystr \<Rightarrow> pystr \<Rightarrow> nat \<Rightarrow> exn + pystr"
  download_image :: "pystr \<Rightarrow> pystr \<Rightarrow> nat \<Rightarrow> exn + fetched"
  time_start :: rat
  time_end :: rat
  now_iso :: pystr

record DownloadOrchestrator =
  delay_ms :: nat
  max_concurrent :: nat
  skip_existing :: bool
  verbose :: bool
  storage :: StorageManager
  logger :: JSONLogger
  stats :: DownloadStats

text \<open>
  What a call can change: the object itself, the disk, the sequence of requests handed to
  \<open>download_image\<close>, and the progress bar's count of completed pairs.
\<close>

record 'o state =
  self :: 'o
  disk :: fs
  requests :: "(pystr \<times> pystr \<times> nat) list"
  completed :: nat

text \<open>The error kind that \<open>download_pair\<close> derives from the status code of a failed fetch.\<close>

definition classify :: "int option \<Rightarrow> pystr" where
  "classify sc =
     (if sc = Some 404 then asc ''NotFound''
      else if truthy_int sc \<and> the sc \<ge> 500 then asc ''ServerError''
      else asc ''NetworkError'')"

definition download_pair ::
  "runtime \<Rightarrow> environment \<Rightarrow> DownloadOrchestrator state \<Rightarrow> pystr \<Rightarrow> pystr \<Rightarrow> nat
     \<Rightarrow> (exn + bool \<times> pystr option) \<times> DownloadOrchestrator state" where
  "download_pair rt env s e1 e2 sz =
     (let this = self s in
      case (if skip_existing this then file_exists rt (storage this) (disk s) e1 e2 else Inr False) of
        Inl ex \<Rightarrow> (Inl ex, s)
      | Inr True \<Rightarrow>
          (Inr (True, None),
           s\<lparr>self := this\<lparr>stats := (stats this)\<lparr>skipped := skipped (stats this) + 1\<rparr>,
                        logger := info (asc ''Skipped '' @ e1 @ asc '' + '' @ e2
                                        @ asc '' (already exists)'') (logger this)\<rparr>\<rparr>)
      | Inr False \<Rightarrow>
          (case build_url env e1 e2 sz of
             Inl ex \<Rightarrow> (Inl ex, s)
           | Inr u \<Rightarrow>
               (let s1 = s\<lparr>requests := requests s @ [(e1, e2, sz)]\<rparr> in
                case download_image env e1 e2 sz of
                  Inl ex \<Rightarrow> (Inl ex, s1)
                | Inr (ok, content, err, sc) \<Rightarrow>
                    (let dur = (time_end env - time_start env) * 1000 in
                     if ok \<and> truthy_bytes content then
                       (case save rt (storage this) (disk s1) e1 e2 (the content) of
                          (Inr fp, d') \<Rightarrow>
                            (Inr (True, None),
                             s1\<lparr>disk := d',
                                self := this\<lparr>stats := (stats this)\<lparr>successes := successes (stats this) + 1\<rparr>,
                                          logger := log_success rt (now_iso env) e1 e2 (str_path fp)
                                                      (Some dur) (Some u) sc (logger this)\<rparr>\<rparr>)
                        | (Inl ex, d') \<Rightarrow>
                            (let error_msg = asc ''Failed to save file: '' @ str_exn ex in
                             (Inr (False, Some error_msg),
                              s1\<lparr>disk := d',
                                 self := this\<lparr>stats := (stats this)\<lparr>failures := failures (stats this) + 1\<rparr>,
                                           logger := log_failure (now_iso env) e1 e2 (asc ''IOError'')
                                                       error_msg None (Some dur) (Some u)
                                                       (logger this)\<rparr>\<rparr>)))
                     else
                       (Inr (False, err),
                        s1\<lparr>self := this\<lparr>stats := (stats this)\<lparr>failures := failures (stats this) + 1\<rparr>,
                                     logger := log_failure (now_iso env) e1 e2 (classify sc)
                                                 (if truthy_str err then the err
                                                  else asc ''Unknown error'')
                                                 sc (Some dur) (Some u) (logger this)\<rparr>\<rparr>)))))"

text \<open>
  Two names for the statements that follow: the value of the guard
  \<open>self.skip_existing and self.storage.file_exists(emoji1, emoji2)\<close>, which does not call
  \<open>file_exists\<close> when \<open>skip_existing\<close> is off, and the state \<open>download_pair\<close> leaves behind in
  its last branch, where the fetch did not give an image.
\<close>

definition skip_check ::
  "runtime \<Rightarrow> DownloadOrchestrator state \<Rightarrow> pystr \<Rightarrow> pystr \<Rightarrow> exn + bool" where
  "skip_check rt s e1 e2 =
     (if skip_existing (self s) then file_exists rt (storage (self s)) (disk s) e1 e2
      else Inr False)"


section \<open>BulkDownloader\<close>



section \<open>Example inputs\<close>

text \<open>
  The pair (U+1F600, U+1F60E), a storage manager rooted at \<open>out\<close> with format
  \<open>codepoint\<close>, and three disks: one holding the pair's image, one with a directory where
  the image would be, and the empty one.
\<close>

definition example_runtime :: runtime where
  "example_runtime =
     \<lparr>glyph_safe = False, default_size = 512, dir_size = 4096, fmt_0f = format_0f\<rparr>"

definition example_storage :: StorageManager where
  "example_storage = \<lparr>base_dir = [asc ''out''], filename_format = Codepoint\<rparr>"

definition grin :: pystr where
  "grin = [128512]"

definition cool :: pystr where
  "cool = [128526]"

definition grin_cool_path :: path where
  "grin_cool_path = [asc ''out'', asc ''1f600'', asc ''1f600_1f60e_512.png'']"

definition disk_with_file :: fs where
  "disk_with_file =
     [[asc ''out''] \<mapsto> Dir, [asc ''out'', asc ''1f600''] \<mapsto> Dir,
      grin_cool_path \<mapsto> File [1, 2, 3]]"

definition disk_with_dir :: fs where
  "disk_with_dir =
     [[asc ''out''] \<mapsto> Dir, [asc ''out'', asc ''1f600''] \<mapsto> Dir, grin_cool_path \<mapsto> Dir]"

definition example_logger :: JSONLogger where
  "example_logger =
     \<lparr>success_file = asc ''logs/successes_s1.json'', failure_file = asc ''logs/failures_s1.json'',
      success_json = Json [], failure_json = Json [],
      logged_successes = [], logged_failures = [], records = []\<rparr>"

definition example_orchestrator :: DownloadOrchestrator where
  "example_orchestrator =
     \<lparr>delay_ms = 100, max_concurrent = 50, skip_existing = True, verbose = False,
      storage = example_storage, logger = example_logger,
      stats = \<lparr>total_n = 1, successes = 0, failures = 0, skipped = 0, duration_seconds = 0\<rparr>\<rparr>"

definition example_state :: "fs \<Rightarrow> DownloadOrchestrator state" where
  "example_state d = \<lparr>self = example_orchestrator, disk = d, requests = [], completed = 0\<rparr>"


definition example_url :: pystr where
  "example_url = asc ''https://kitchen.example/s/1f600_1f60e?size=512''"

definition env_of :: "exn + fetched \<Rightarrow> environment" where
  "env_of r =
     \<lparr>build_url = (\<lambda>a b n. Inr example_url), download_image = (\<lambda>a b n. r),
      time_start = 10, time_end = 21 / 2, now_iso = asc ''2025-01-01T00:00:00''\<rparr>"



definition png_response :: fetched where
  "png_response = (True, Some [137, 80, 78, 71], None, Some 200)"

text \<open>
  A piece of an emoji's codepoint key: a hexadecimal numeral is not empty and holds no hyphen.
\<close>

definition plain :: "pystr \<Rightarrow> bool" where
  "plain x = (x \<noteq> [] \<and> 45 \<notin> set x)"

section \<open>Evaluating the examples\<close>

lemmas path_defs = get_file_path_def generate_full_path_def generate_directory_name_def
  resolve_format_def emoji_to_codepoint_def to_hex.simps hex_digit_def str_nat.simps asc_def

lemmas disk_defs = lookup_def path_exists_def is_file_def st_size_def mkdir_parents_def
  write_bytes_def unlink_def

lemma grin_cool_path_resolves: "get_file_path example_runtime example_storage grin cool = Inr grin_cool_path"
  by (simp add: path_defs example_runtime_def example_storage_def grin_def cool_def grin_cool_path_def)

section \<open>The codepoint key determines the emoji\<close>

lemma hex_digit_inj: "a < 16 \<Longrightarrow> b < 16 \<Longrightarrow> hex_digit a = hex_digit b \<Longrightarrow> a = b"
  unfolding hex_digit_def by (simp split: if_splits)

lemma hex_digit_range: "d < 16 \<Longrightarrow> hex_digit d \<noteq> 45 \<and> hex_digit d \<noteq> 95"
  unfolding hex_digit_def by simp

lemma to_hex_chars: "c \<in> set (to_hex n) \<Longrightarrow> c \<noteq> 45 \<and> c \<noteq> 95"
proof (induction n rule: to_hex.induct)
  case (1 n)
  show ?case
  proof (cases "n < 16")
    case True
    with "1.prems" show ?thesis
      by (simp add: to_hex.simps [of n] hex_digit_range)
  next
    case False
    with "1.prems" "1.IH" show ?thesis
      using hex_digit_range [of "n mod 16"] by (auto simp add: to_hex.simps [of n])
  qed
qed

lemma to_hex_not_Nil: "to_hex n \<noteq> []"
  by (subst to_hex.simps) simp

lemma to_hex_inj: "to_hex n = to_hex m \<Longrightarrow> n = m"
proof (induction n arbitrary: m rule: to_hex.induct)
  case (1 n)
  show ?case
  proof (cases "n < 16")
    case True
    note n = this
    show ?thesis
    proof (cases "m < 16")
      case True
      with n "1.prems" show ?thesis
        using hex_digit_inj [of n m] by (simp add: to_hex.simps [of n] to_hex.simps [of m])
    next
      case False
      with n "1.prems" show ?thesis
        using to_hex_not_Nil [of "m div 16"]
        by (simp add: to_hex.simps [of n] to_hex.simps [of m])
    qed
  next
    case False
    note n = this
    show ?thesis
    proof (cases "m < 16")
      case True
      with n "1.prems" show ?thesis
        using to_hex_not_Nil [of "n div 16"]
        by (simp add: to_hex.simps [of n] to_hex.simps [of m])
    next
      case False
      with n "1.prems" have eq: "to_hex (n div 16) = to_hex (m div 16)"
        and dg: "hex_digit (n mod 16) = hex_digit (m mod 16)"
        by (simp_all add: to_hex.simps [of n] to_hex.simps [of m])
      from "1.IH" [OF n eq] have d: "n div 16 = m div 16" .
      have r: "n mod 16 = m mod 16"
        using dg by (intro hex_digit_inj [of "n mod 16" "m mod 16"]) simp_all
      from d r show ?thesis
        by (metis div_mult_mod_eq)
    qed
  qed
qed

lemma split_at_first:
  "c \<notin> set xs \<Longrightarrow> c \<notin> set xs' \<Longrightarrow> xs @ c # ys = xs' @ c # ys' \<Longrightarrow> xs = xs' \<and> ys = ys'"
proof (induction xs arbitrary: xs')
  case Nil
  then show ?case by (cases xs') auto
next
  case (Cons a xs)
  then show ?case by (cases xs') auto
qed

lemma join_hyphen_Nil_iff: "list_all plain xs \<Longrightarrow> join_hyphen xs = [] \<longleftrightarrow> xs = []"
  by (induction xs rule: join_hyphen.induct) (auto simp: plain_def)

lemma join_hyphen_inj:
  "list_all plain xs \<Longrightarrow> list_all plain ys \<Longrightarrow> join_hyphen xs = join_hyphen ys \<Longrightarrow> xs = ys"
proof (induction xs arbitrary: ys rule: join_hyphen.induct)
  case 1
  then show ?case using join_hyphen_Nil_iff [of ys] by simp
next
  case (2 x)
  show ?case
  proof (cases ys rule: join_hyphen.cases)
    case 1
    with 2 show ?thesis by (simp add: plain_def)
  next
    case (2 y)
    with "2.prems" show ?thesis by simp
  next
    case (3 y z zs)
    with "2.prems" show ?thesis by (auto simp: plain_def)
  qed
next
  case (3 x y xs)
  show ?case
  proof (cases ys rule: join_hyphen.cases)
    case 1
    with "3.prems" show ?thesis by (simp add: plain_def)
  next
    case (2 z)
    with "3.prems" show ?thesis by (auto simp: plain_def)
  next
    case (3 u v vs)
    with "3.prems" have "x @ 45 # join_hyphen (y # xs) = u @ 45 # join_hyphen (v # vs)"
      and nx: "45 \<notin> set x" and nu: "45 \<notin> set u"
      by (simp_all add: plain_def)
    then have "x = u" and "join_hyphen (y # xs) = join_hyphen (v # vs)"
      using split_at_first [of 45 x u] by blast+
    with "3.IH" [of "v # vs"] "3.prems" 3 show ?thesis by simp
  qed
qed

lemma plain_to_hex: "list_all plain (map to_hex e)"
  using to_hex_chars to_hex_not_Nil by (auto simp: list_all_iff plain_def)

lemma emoji_to_codepoint_inj: "emoji_to_codepoint a = emoji_to_codepoint b \<Longrightarrow> a = b"
proof -
  assume "emoji_to_codepoint a = emoji_to_codepoint b"
  then have "map to_hex a = map to_hex b"
    unfolding emoji_to_codepoint_def by (intro join_hyphen_inj plain_to_hex)
  then show "a = b"
    by (rule map_injective) (simp add: inj_on_def to_hex_inj)
qed

section \<open>Properties of the storage manager\<close>

lemma write_bytes_ok:
  "write_bytes d p content = (Inr u, d2) \<Longrightarrow> p \<noteq> [] \<and> d2 = d(p \<mapsto> File content)"
  unfolding write_bytes_def lookup_def
  by (auto split: if_splits)

lemma get_file_path_not_Nil: "get_file_path rt sm e1 e2 = Inr p \<Longrightarrow> p \<noteq> []"
  unfolding get_file_path_def generate_full_path_def
  by (auto split: sum.splits)

lemma save_ok:
  assumes "fst (save rt sm d e1 e2 content) = Inr p"
  shows "get_file_path rt sm e1 e2 = Inr p"
    and "lookup (snd (save rt sm d e1 e2 content)) p = Some (File content)"
proof -
  from assms obtain fp d1 d2 u v where
    fp: "get_file_path rt sm e1 e2 = Inr fp"
    and mk: "mkdir_parents d (butlast fp) = (Inr u, d1)"
    and wr: "write_bytes d1 fp content = (Inr v, d2)"
    and res: "save rt sm d e1 e2 content = (Inr fp, d2)"
    unfolding save_def
    by (auto split: sum.splits prod.splits)
  from res assms have "fp = p" by simp
  with fp show "get_file_path rt sm e1 e2 = Inr p" by simp
  from write_bytes_ok [OF wr] res \<open>fp = p\<close>
  show "lookup (snd (save rt sm d e1 e2 content)) p = Some (File content)"
    by (simp add: lookup_def)
qed

lemma unlink_cases:
  "p \<noteq> [] \<Longrightarrow> unlink d p =
     (case d p of
        None \<Rightarrow> (Inl (Exn FileNotFoundError (oserror_text 2 ''No such file or directory'' p)), d)
      | Some Dir \<Rightarrow> (Inl (Exn IsADirectoryError (oserror_text 21 ''Is a directory'' p)), d)
      | Some (File b) \<Rightarrow> (Inr (), d(p := None)))"
  by (simp add: unlink_def lookup_def)

lemma generate_directory_name_codepoint:
  "e \<noteq> [] \<Longrightarrow> generate_directory_name rt e Codepoint = Inr (emoji_to_codepoint e)"
  by (simp add: generate_directory_name_def resolve_format_def)

text \<open>
  C4. After \<open>save(pair, bytes)\<close> returns without raising, \<open>file_exists(pair)\<close> is true and
  \<open>get_file_size(pair)\<close> is the length of the bytes written, whatever was on the disk before,
  a previous file for the pair included.
\<close>

theorem save_then_exists_and_size:
  assumes "fst (save rt sm d e1 e2 content) = Inr p"
  shows "file_exists rt sm (snd (save rt sm d e1 e2 content)) e1 e2 = Inr True
    \<and> get_file_size rt sm (snd (save rt sm d e1 e2 content)) e1 e2 = Inr (Some (length content))"
  using save_ok [OF assms]
  by (simp add: file_exists_def get_file_size_def path_exists_def is_file_def st_size_def)

theorem save_then_exists_and_size_witness:
  "fst (save example_runtime example_storage disk_with_file grin cool [9, 9]) = Inr grin_cool_path
   \<and> file_exists example_runtime example_storage disk_with_file grin cool = Inr True
   \<and> get_file_size example_runtime example_storage disk_with_file grin cool = Inr (Some 3)
   \<and> file_exists example_runtime example_storage
        (snd (save example_runtime example_storage disk_with_file grin cool [9, 9])) grin cool = Inr True
   \<and> get_file_size example_runtime example_storage
        (snd (save example_runtime example_storage disk_with_file grin cool [9, 9])) grin cool = Inr (Some 2)"
proof -
  have h: "fst (save example_runtime example_storage disk_with_file grin cool [9, 9]) = Inr grin_cool_path"
    by (simp add: save_def grin_cool_path_resolves disk_defs disk_with_file_def grin_cool_path_def asc_def)
  have b: "file_exists example_runtime example_storage disk_with_file grin cool = Inr True
   \<and> get_file_size example_runtime example_storage disk_with_file grin cool = Inr (Some 3)"
    by (simp add: file_exists_def get_file_size_def grin_cool_path_resolves disk_defs disk_with_file_def grin_cool_path_def asc_def)
  from save_then_exists_and_size [OF h] h b show ?thesis by simp
qed

text \<open>
  C10, as stated, fails where the pair's path is a directory: \<open>file_exists\<close> is false there
  (it asks for a regular file), yet \<open>delete\<close> finds that the path exists, calls \<open>unlink\<close> and
  raises instead of returning false.
\<close>

theorem delete_directory_counterexample:
  "file_exists example_runtime example_storage disk_with_dir grin cool = Inr False
   \<and> delete example_runtime example_storage disk_with_dir grin cool
       = (Inl (Exn IsADirectoryError (oserror_text 21 ''Is a directory'' grin_cool_path)), disk_with_dir)"
  by (simp add: file_exists_def delete_def grin_cool_path_resolves disk_defs disk_with_dir_def grin_cool_path_def asc_def)

text \<open>
  C10, amended. For a pair whose path resolves: \<open>delete\<close> returns true exactly when a
  regular file for the pair was there before the call; after the call, whether it returned
  or raised, \<open>file_exists\<close> is false; and when nothing is at the pair's path, \<open>delete\<close>
  returns false and leaves the disk as it was.
\<close>

theorem delete_removes_regular_file:
  assumes "get_file_path rt sm e1 e2 = Inr p"
  shows "(fst (delete rt sm d e1 e2) = Inr True \<longleftrightarrow> file_exists rt sm d e1 e2 = Inr True)
    \<and> file_exists rt sm (snd (delete rt sm d e1 e2)) e1 e2 = Inr False
    \<and> (lookup d p = None \<longrightarrow> delete rt sm d e1 e2 = (Inr False, d))"
proof -
  from assms have ne: "p \<noteq> []" by (rule get_file_path_not_Nil)
  show ?thesis
  proof (cases "d p")
    case None
    with assms ne show ?thesis
      by (simp add: delete_def file_exists_def path_exists_def is_file_def lookup_def)
  next
    case (Some nd)
    show ?thesis
    proof (cases nd)
      case (File b)
      with Some assms ne show ?thesis
        by (simp add: delete_def file_exists_def path_exists_def is_file_def lookup_def
            unlink_cases)
    next
      case Dir
      with Some assms ne show ?thesis
        by (simp add: delete_def file_exists_def path_exists_def is_file_def lookup_def
            unlink_cases)
    qed
  qed
qed

theorem delete_removes_regular_file_witness:
  "get_file_path example_runtime example_storage grin cool = Inr grin_cool_path
   \<and> file_exists example_runtime example_storage disk_with_file grin cool = Inr True
   \<and> fst (delete example_runtime example_storage disk_with_file grin cool) = Inr True
   \<and> file_exists example_runtime example_storage
        (snd (delete example_runtime example_storage disk_with_file grin cool)) grin cool = Inr False
   \<and> lookup Map.empty grin_cool_path = None
   \<and> delete example_runtime example_storage Map.empty grin cool = (Inr False, Map.empty)"
proof -
  have e: "file_exists example_runtime example_storage disk_with_file grin cool = Inr True"
    by (simp add: file_exists_def grin_cool_path_resolves disk_defs disk_with_file_def grin_cool_path_def asc_def)
  have n: "lookup Map.empty grin_cool_path = None"
    by (simp add: lookup_def grin_cool_path_def)
  from delete_removes_regular_file [OF grin_cool_path_resolves, of disk_with_file]
    delete_removes_regular_file [OF grin_cool_path_resolves, of Map.empty] e n grin_cool_path_resolves
  show ?thesis by simp
qed

text \<open>
  C5. Path resolution is a function of the base directory, the format and the pair alone,
  so resolving twice gives the same path; and under format \<open>codepoint\<close> two different pairs
  of non-empty emoji resolve to different paths.
\<close>

theorem get_file_path_deterministic_injective:
  "(base_dir sm' = base_dir sm \<and> filename_format sm' = filename_format sm
      \<longrightarrow> get_file_path rt sm' a b = get_file_path rt sm a b)
   \<and> (filename_format sm = Codepoint \<and> a \<noteq> [] \<and> b \<noteq> [] \<and> c \<noteq> [] \<and> d \<noteq> []
        \<and> (a, b) \<noteq> (c, d)
      \<longrightarrow> (\<exists>p q. get_file_path rt sm a b = Inr p \<and> get_file_path rt sm c d = Inr q \<and> p \<noteq> q))"
proof (intro conjI impI)
  assume "base_dir sm' = base_dir sm \<and> filename_format sm' = filename_format sm"
  then show "get_file_path rt sm' a b = get_file_path rt sm a b"
    by (simp add: get_file_path_def)
next
  assume h: "filename_format sm = Codepoint \<and> a \<noteq> [] \<and> b \<noteq> [] \<and> c \<noteq> [] \<and> d \<noteq> []
        \<and> (a, b) \<noteq> (c, d)"
  let ?tail = "95 # str_nat (default_size rt) @ asc ''.png''"
  let ?p = "base_dir sm @ [emoji_to_codepoint a,
              emoji_to_codepoint a @ 95 # emoji_to_codepoint b @ ?tail]"
  let ?q = "base_dir sm @ [emoji_to_codepoint c,
              emoji_to_codepoint c @ 95 # emoji_to_codepoint d @ ?tail]"
  from h have pa: "get_file_path rt sm a b = Inr ?p" and pc: "get_file_path rt sm c d = Inr ?q"
    by (simp_all add: get_file_path_def generate_full_path_def generate_directory_name_codepoint)
  have "?p \<noteq> ?q"
  proof
    assume pq: "?p = ?q"
    then have "emoji_to_codepoint a = emoji_to_codepoint c" by simp
    then have ac: "a = c" by (rule emoji_to_codepoint_inj)
    with pq have "emoji_to_codepoint b = emoji_to_codepoint d" by simp
    then have "b = d" by (rule emoji_to_codepoint_inj)
    with ac have "a = c" and "b = d" by simp_all
    moreover note h
    ultimately show False by simp
  qed
  with pa pc show "\<exists>p q. get_file_path rt sm a b = Inr p \<and> get_file_path rt sm c d = Inr q \<and> p \<noteq> q"
    by blast
qed

theorem get_file_path_deterministic_injective_witness:
  "filename_format example_storage = Codepoint \<and> (grin, cool) \<noteq> (cool, grin)
   \<and> get_file_path example_runtime example_storage grin cool
       = get_file_path example_runtime example_storage grin cool
   \<and> (\<exists>p q. get_file_path example_runtime example_storage grin cool = Inr p
         \<and> get_file_path example_runtime example_storage cool grin = Inr q \<and> p \<noteq> q)"
  using get_file_path_deterministic_injective
    [of example_storage example_storage example_runtime grin cool cool grin]
  by (simp add: example_storage_def grin_def cool_def)

section \<open>Properties of the logger\<close>

lemma success_line_not_Nil: "success_line rt e1 e2 fp d \<noteq> []"
  by (simp add: success_line_def asc_def)

lemma failure_line_not_Nil: "failure_line e1 e2 et em c \<noteq> []"
  by (simp add: failure_line_def asc_def)

lemma last_records_log_success:
  "last (records (log_success rt now e1 e2 fp dur u sc lg))
     = (INFO, if truthy_float dur then success_line rt e1 e2 fp (the dur) else [])"
  by (simp add: log_success_def info_def emit_def Let_def)

lemma last_records_log_failure:
  "last (records (log_failure now e1 e2 et em sc dur u lg))
     = (WARNING, if truthy_int sc then failure_line e1 e2 et em (the sc) else [])"
  by (simp add: log_failure_def warning_def emit_def Let_def)

lemma logged_append_to_json_file:
  "logged_successes (append_to_json_file f r lg) = logged_successes lg"
  "logged_failures (append_to_json_file f r lg) = logged_failures lg"
  by (simp_all add: append_to_json_file_def error_def emit_def split: logfile.splits jsonfile.splits)

lemma logged_log_success:
  "logged_failures (log_success rt now e1 e2 fp dur u sc lg) = logged_failures lg"
  "logged_successes (log_success rt now e1 e2 fp dur u sc lg) = logged_successes lg @
     [\<lparr>emoji1 = e1, emoji2 = e2, timestamp = now, success = True,
       file_path = Some fp, error_type = None, error_message = None,
       status_code = sc, duration_ms = dur, url = u\<rparr>]"
  by (simp_all add: log_success_def info_def emit_def Let_def logged_append_to_json_file)

lemma logged_log_failure:
  "logged_successes (log_failure now e1 e2 et em sc dur u lg) = logged_successes lg"
  "logged_failures (log_failure now e1 e2 et em sc dur u lg) = logged_failures lg @
     [\<lparr>emoji1 = e1, emoji2 = e2, timestamp = now, success = False,
       file_path = None, error_type = Some et, error_message = Some em,
       status_code = sc, duration_ms = dur, url = u\<rparr>]"
  by (simp_all add: log_failure_def warning_def emit_def Let_def logged_append_to_json_file)

lemma logged_info:
  "logged_successes (info m lg) = logged_successes lg"
  "logged_failures (info m lg) = logged_failures lg"
  "records (info m lg) = records lg @ [(INFO, m)]"
  by (simp_all add: info_def emit_def)

lemmas logged_simps = logged_log_success logged_log_failure logged_info

text \<open>
  C9, as stated, fails for \<open>log_failure\<close>: its conditional tests \<open>status_code\<close>, not
  \<open>duration_ms\<close>. With no duration and status 404 the full line is emitted, and with a
  duration of 12 ms and no status the message is empty.
\<close>

theorem log_failure_blanking_counterexample:
  "last (records (log_failure (asc ''t'') grin cool (asc ''NotFound'') (asc ''HTTP 404'')
                    (Some 404) None None example_logger))
     = (WARNING, failure_line grin cool (asc ''NotFound'') (asc ''HTTP 404'') 404)
   \<and> failure_line grin cool (asc ''NotFound'') (asc ''HTTP 404'') 404 \<noteq> []
   \<and> last (records (log_failure (asc ''t'') grin cool (asc ''NetworkError'') (asc ''timed out'')
                    None (Some 12) None example_logger))
     = (WARNING, [])"
  by (simp add: last_records_log_failure failure_line_not_Nil)

text \<open>
  C9, amended. The line \<open>log_success\<close> emits is empty exactly when \<open>duration_ms\<close> is falsy
  (\<open>None\<close> or zero) and is the full SUCCESS line otherwise; the line \<open>log_failure\<close> emits is
  empty exactly when \<open>status_code\<close> is falsy and is the full FAILURE line otherwise, whatever
  \<open>duration_ms\<close> is. Neither full line is the empty string.
\<close>

theorem log_line_blanking:
  "last (records (log_success rt now e1 e2 fp dur u sc lg))
     = (INFO, if truthy_float dur then success_line rt e1 e2 fp (the dur) else [])
   \<and> last (records (log_failure now e1 e2 et em sc dur u lg))
     = (WARNING, if truthy_int sc then failure_line e1 e2 et em (the sc) else [])
   \<and> success_line rt e1 e2 fp d \<noteq> [] \<and> failure_line e1 e2 et em c \<noteq> []"
  by (simp add: last_records_log_success last_records_log_failure success_line_not_Nil
      failure_line_not_Nil)

theorem log_line_blanking_witness:
  "last (records (log_success example_runtime (asc ''t'') grin cool (asc ''p'') None None
                    (Some 404) example_logger)) = (INFO, [])
   \<and> last (records (log_failure (asc ''t'') grin cool (asc ''NotFound'') (asc ''HTTP 404'')
                    (Some 404) None None example_logger))
      = (WARNING, failure_line grin cool (asc ''NotFound'') (asc ''HTTP 404'') 404)
   \<and> last (records (log_success example_runtime (asc ''t'') grin cool (asc ''p'') (Some 12) None
                    None example_logger))
      = (INFO, success_line example_runtime grin cool (asc ''p'') 12)
   \<and> last (records (log_failure (asc ''t'') grin cool (asc ''IOError'') (asc ''disk full'')
                    None (Some 12) None example_logger)) = (WARNING, [])"
  using log_line_blanking [where rt = example_runtime and now = "asc ''t''" and ?e1.0 = grin
      and ?e2.0 = cool and fp = "asc ''p''" and dur = None and u = None and sc = "Some 404"
      and lg = example_logger and et = "asc ''NotFound''" and em = "asc ''HTTP 404''"]
    log_line_blanking [where rt = example_runtime and now = "asc ''t''" and ?e1.0 = grin
      and ?e2.0 = cool and fp = "asc ''p''" and dur = "Some 12" and u = None and sc = None
      and lg = example_logger and et = "asc ''IOError''" and em = "asc ''disk full''"]
  by simp

section \<open>The paths through download_pair\<close>







lemma download_pair_save_raises:
  "skip_check rt s e1 e2 = Inr False \<Longrightarrow> build_url env e1 e2 sz = Inr u \<Longrightarrow>
   download_image env e1 e2 sz = Inr (True, Some c, err, sc) \<Longrightarrow> c \<noteq> [] \<Longrightarrow>
   save rt (storage (self s)) (disk s) e1 e2 c = (Inl ex, d') \<Longrightarrow>
   download_pair rt env s e1 e2 sz =
     (Inr (False, Some (asc ''Failed to save file: '' @ str_exn ex)),
      s\<lparr>requests := requests s @ [(e1, e2, sz)], disk := d',
        self := (self s)\<lparr>stats := (stats (self s))\<lparr>failures := failures (stats (self s)) + 1\<rparr>,
                  logger := log_failure (now_iso env) e1 e2 (asc ''IOError'')
                              (asc ''Failed to save file: '' @ str_exn ex) None
                              (Some ((time_end env - time_start env) * 1000)) (Some u)
                              (logger (self s))\<rparr>\<rparr>)"
  by (simp add: download_pair_def skip_check_def Let_def)




lemma env_of_simps:
  "build_url (env_of r) a b n = Inr example_url"
  "download_image (env_of r) a b n = r"
  by (simp_all add: env_of_def)

lemma example_state_simps:
  "skip_existing (self (example_state d))"
  "storage (self (example_state d)) = example_storage"
  "disk (example_state d) = d"
  "stats (self (example_state d))
     = \<lparr>total_n = 1, successes = 0, failures = 0, skipped = 0, duration_seconds = 0\<rparr>"
  "logger (self (example_state d)) = example_logger"
  "requests (example_state d) = []"
  by (simp_all add: example_state_def example_orchestrator_def)

lemma file_exists_examples:
  "file_exists example_runtime example_storage Map.empty grin cool = Inr False"
  "file_exists example_runtime example_storage disk_with_file grin cool = Inr True"
  "file_exists example_runtime example_storage disk_with_dir grin cool = Inr False"
  by (simp_all add: file_exists_def grin_cool_path_resolves disk_defs disk_with_file_def
      disk_with_dir_def grin_cool_path_def asc_def)

lemma skip_check_examples:
  "skip_check example_runtime (example_state Map.empty) grin cool = Inr False"
  "skip_check example_runtime (example_state disk_with_file) grin cool = Inr True"
  "skip_check example_runtime (example_state disk_with_dir) grin cool = Inr False"
  by (simp_all add: skip_check_def example_state_simps file_exists_examples)

lemma save_examples:
  "fst (save example_runtime example_storage disk_with_dir grin cool [137, 80, 78, 71])
     = Inl (Exn IsADirectoryError (oserror_text 21 ''Is a directory'' grin_cool_path))"
  "fst (save example_runtime example_storage Map.empty grin cool [137, 80, 78, 71])
     = Inr grin_cool_path"
  by (simp_all add: save_def grin_cool_path_resolves disk_defs disk_with_dir_def
      grin_cool_path_def asc_def)


lemma example_logger_simps:
  "logged_successes example_logger = []"
  "logged_failures example_logger = []"
  "records example_logger = []"
  by (simp_all add: example_logger_def)

section \<open>Properties of the orchestrator\<close>







text \<open>
  C3. With \<open>skip_existing\<close> on and the pair's file on disk, \<open>download_pair\<close> hands nothing
  to the client, leaves the disk alone, adds one to \<open>skipped\<close> only, and returns success.
\<close>

theorem skip_existing_no_fetch:
  assumes "skip_existing (self s)"
    and "file_exists rt (storage (self s)) (disk s) e1 e2 = Inr True"
  shows "fst (download_pair rt env s e1 e2 sz) = Inr (True, None)
    \<and> requests (snd (download_pair rt env s e1 e2 sz)) = requests s
    \<and> disk (snd (download_pair rt env s e1 e2 sz)) = disk s
    \<and> skipped (stats (self (snd (download_pair rt env s e1 e2 sz)))) = skipped (stats (self s)) + 1
    \<and> successes (stats (self (snd (download_pair rt env s e1 e2 sz)))) = successes (stats (self s))
    \<and> failures (stats (self (snd (download_pair rt env s e1 e2 sz)))) = failures (stats (self s))"
  using assms by (simp add: download_pair_def Let_def)


theorem skip_existing_no_fetch_witness:
  "skip_existing (self (example_state disk_with_file))
   \<and> file_exists example_runtime (storage (self (example_state disk_with_file)))
        (disk (example_state disk_with_file)) grin cool = Inr True
   \<and> fst (download_pair example_runtime (env_of (Inr png_response))
        (example_state disk_with_file) grin cool 512) = Inr (True, None)
   \<and> requests (snd (download_pair example_runtime (env_of (Inr png_response))
        (example_state disk_with_file) grin cool 512)) = []
   \<and> skipped (stats (self (snd (download_pair example_runtime (env_of (Inr png_response))
        (example_state disk_with_file) grin cool 512)))) = 1"
proof -
  have a: "skip_existing (self (example_state disk_with_file))"
    by (simp add: example_state_simps)
  have b: "file_exists example_runtime (storage (self (example_state disk_with_file)))
        (disk (example_state disk_with_file)) grin cool = Inr True"
    by (simp add: example_state_simps file_exists_examples)
  from skip_existing_no_fetch [OF a b, of "env_of (Inr png_response)" 512] a b
  show ?thesis by (simp add: example_state_simps)
qed




text \<open>
  C7. When the fetch gives a non-empty image and \<open>save\<close> raises, \<open>download_pair\<close> returns
  false with the message "Failed to save file: ...", adds one to \<open>failures\<close> and nothing to
  \<open>successes\<close>, and logs one failure record of kind IOError, without a status code.
\<close>

theorem save_failure_is_IOError:
  assumes chk: "skip_check rt s e1 e2 = Inr False"
    and url: "build_url env e1 e2 sz = Inr u"
    and img: "download_image env e1 e2 sz = Inr (True, Some c, err, sc)"
    and c: "c \<noteq> []"
    and sv: "fst (save rt (storage (self s)) (disk s) e1 e2 c) = Inl ex"
  shows "let s' = snd (download_pair rt env s e1 e2 sz);
             st = stats (self s); st' = stats (self s');
             lg = logger (self s); lg' = logger (self s')
         in fst (download_pair rt env s e1 e2 sz)
              = Inr (False, Some (asc ''Failed to save file: '' @ str_exn ex))
            \<and> failures st' = failures st + 1 \<and> successes st' = successes st
            \<and> skipped st' = skipped st
            \<and> logged_successes lg' = logged_successes lg
            \<and> (\<exists>x. logged_failures lg' = logged_failures lg @ [x]
                     \<and> error_type x = Some (asc ''IOError'') \<and> success x = False
                     \<and> status_code x = None
                     \<and> error_message x = Some (asc ''Failed to save file: '' @ str_exn ex))"
proof -
  from sv obtain d' where "save rt (storage (self s)) (disk s) e1 e2 c = (Inl ex, d')"
    by (cases "save rt (storage (self s)) (disk s) e1 e2 c") auto
  from download_pair_save_raises [OF chk url img c this] show ?thesis
    by (simp add: Let_def logged_simps)
qed

theorem save_failure_is_IOError_witness:
  "skip_check example_runtime (example_state disk_with_dir) grin cool = Inr False
   \<and> fst (save example_runtime (storage (self (example_state disk_with_dir)))
            (disk (example_state disk_with_dir)) grin cool [137, 80, 78, 71])
       = Inl (Exn IsADirectoryError (oserror_text 21 ''Is a directory'' grin_cool_path))
   \<and> fst (download_pair example_runtime (env_of (Inr png_response))
            (example_state disk_with_dir) grin cool 512)
       = Inr (False, Some (asc ''Failed to save file: ''
                        @ oserror_text 21 ''Is a directory'' grin_cool_path))
   \<and> failures (stats (self (snd (download_pair example_runtime (env_of (Inr png_response))
            (example_state disk_with_dir) grin cool 512)))) = 1
   \<and> successes (stats (self (snd (download_pair example_runtime (env_of (Inr png_response))
            (example_state disk_with_dir) grin cool 512)))) = 0
   \<and> (\<exists>x. logged_failures (logger (self (snd (download_pair example_runtime
            (env_of (Inr png_response)) (example_state disk_with_dir) grin cool 512)))) = [x]
          \<and> error_type x = Some (asc ''IOError''))"
proof -
  have img: "download_image (env_of (Inr png_response)) grin cool 512
      = Inr (True, Some [137, 80, 78, 71], None, Some 200)"
    by (simp add: env_of_simps png_response_def)
  have c: "[137, 80, 78, 71] \<noteq> ([] :: bytes)" by simp
  have sv: "fst (save example_runtime (storage (self (example_state disk_with_dir)))
            (disk (example_state disk_with_dir)) grin cool [137, 80, 78, 71])
       = Inl (Exn IsADirectoryError (oserror_text 21 ''Is a directory'' grin_cool_path))"
    by (simp add: example_state_simps save_examples)
  from save_failure_is_IOError [OF skip_check_examples(3) env_of_simps(1) img c sv]
    skip_check_examples(3) sv
  show ?thesis
    by (auto simp add: Let_def example_state_simps example_logger_simps)
qed

end
